theory Spec2Isabelle
  imports Main "HOL-Library.Char_ord" "HOL-Library.List_Lexorder"
begin

section \<open>The backing store\<close>

text \<open>
  The store is the SQLite file \<^verbatim>\<open>.autonomous_project.db\<close> with the four tables that
  \<^verbatim>\<open>ProjectState._init_database\<close> creates. A table is the list of its rows in rowid
  order; a nullable \<^verbatim>\<open>TEXT\<close> column is a \<open>string option\<close> (\<open>None\<close> is SQL \<^verbatim>\<open>NULL\<close>);
  an \<^verbatim>\<open>INTEGER PRIMARY KEY AUTOINCREMENT\<close> table carries the largest rowid it has ever
  handed out (SQLite's \<^verbatim>\<open>sqlite_sequence\<close>), and a new row gets the successor.
  SQLite does not enforce the \<^verbatim>\<open>FOREIGN KEY\<close> clauses of the schema unless the
  connection switches them on, which no connection of the program does, so an
  insert never fails on them.
\<close>

record session_row =
  s_session_id :: string
  s_created_at :: string
  s_project_goal :: string
  s_current_phase :: "string option"

record agent_row =
  a_id :: nat
  a_session_id :: string
  a_role :: string
  a_agent_id :: "string option"
  a_started_at :: string
  a_status :: "string option"

record task_row =
  t_id :: nat
  t_session_id :: string
  t_task_id :: string
  t_agent_role :: "string option"
  t_description :: "string option"
  t_status :: "string option"
  t_created_at :: string
  t_completed_at :: "string option"

record report_row =
  r_id :: nat
  r_session_id :: string
  r_timestamp :: string
  r_phase :: "string option"
  r_completed_tasks :: int
  r_data :: string

record db =
  sessions :: "session_row list"
  agents :: "agent_row list"
  agents_seq :: nat
  tasks :: "task_row list"
  tasks_seq :: nat
  reports :: "report_row list"
  reports_seq :: nat

text \<open>
  One reading of \<^verbatim>\<open>datetime.now()\<close>. The program renders a reading in two ways,
  \<^verbatim>\<open>.isoformat()\<close> and \<^verbatim>\<open>.strftime("%Y%m%d_%H%M%S")\<close>; both renderings come
  from the environment, so a reading is the pair of them. Every store operation
  below that reads the clock takes its reading as the argument \<open>now\<close>.
\<close>

record datetime =
  isoformat :: string
  strftime :: string

text \<open>
  \<^verbatim>\<open>_init_database\<close>: every table is created \<^verbatim>\<open>IF NOT EXISTS\<close>. The argument is
  the file as found (\<open>None\<close> when there is no file yet).
\<close>

definition init_database :: "db option \<Rightarrow> db" where
  "init_database file =
     (case file of
        None \<Rightarrow> \<lparr>sessions = [], agents = [], agents_seq = 0, tasks = [], tasks_seq = 0,
                 reports = [], reports_seq = 0\<rparr>
      | Some d \<Rightarrow> d)"

text \<open>Python truthiness of an \<^verbatim>\<open>Optional[str]\<close>: \<^verbatim>\<open>None\<close> and \<^verbatim>\<open>""\<close> are false.\<close>

fun truthy :: "string option \<Rightarrow> bool" where
  "truthy None = False"
| "truthy (Some s) = (s \<noteq> [])"

subsection \<open>\<^verbatim>\<open>ProjectState\<close> (autonomous\_project.py)\<close>

text \<open>
  The handle's attribute \<^verbatim>\<open>self.session_id\<close> is the argument \<open>sid\<close>. The insert
  of \<^verbatim>\<open>add_task\<close> names no status column, so the row takes the column default
  \<^verbatim>\<open>'pending'\<close>.
\<close>

definition add_task ::
  "string \<Rightarrow> string \<Rightarrow> string option \<Rightarrow> string option \<Rightarrow> datetime \<Rightarrow> db \<Rightarrow> db" where
  "add_task sid task_id agent_role description now d =
     d\<lparr>tasks := tasks d @
          [\<lparr>t_id = Suc (tasks_seq d), t_session_id = sid, t_task_id = task_id,
            t_agent_role = agent_role, t_description = description,
            t_status = Some ''pending'', t_created_at = isoformat now,
            t_completed_at = None\<rparr>],
       tasks_seq := Suc (tasks_seq d)\<rparr>"

definition complete_task :: "string \<Rightarrow> string \<Rightarrow> datetime \<Rightarrow> db \<Rightarrow> db" where
  "complete_task sid task_id now d =
     d\<lparr>tasks := map (\<lambda>r. if t_task_id r = task_id \<and> t_session_id r = sid
                          then r\<lparr>t_status := Some ''completed'',
                                 t_completed_at := Some (isoformat now)\<rparr>
                          else r) (tasks d)\<rparr>"

definition get_completed_tasks_count :: "string \<Rightarrow> db \<Rightarrow> nat" where
  "get_completed_tasks_count sid d =
     length (filter (\<lambda>r. t_session_id r = sid \<and> t_status r = Some ''completed'') (tasks d))"

subsection \<open>\<^verbatim>\<open>TaskSync\<close> (task\_sync.py)\<close>

text \<open>
  \<^verbatim>\<open>SELECT session_id FROM sessions ORDER BY created_at DESC LIMIT 1\<close>: a row whose
  \<^verbatim>\<open>created_at\<close> is greatest in SQLite's text order (byte-wise, a proper prefix
  first). SQL leaves the choice among rows with equal \<^verbatim>\<open>created_at\<close> open; the
  model takes the one inserted first, and no theorem below depends on that choice.
\<close>

fun latest_session :: "session_row list \<Rightarrow> session_row option" where
  "latest_session [] = None"
| "latest_session (s # ss) =
     (case latest_session ss of
        None \<Rightarrow> Some s
      | Some m \<Rightarrow> if s_created_at s < s_created_at m then Some m else Some s)"

definition create_task ::
  "string \<Rightarrow> string option \<Rightarrow> string option \<Rightarrow> string option \<Rightarrow> datetime \<Rightarrow> db \<Rightarrow> db" where
  "create_task task_id description agent_role session_id now d =
     (let sid = (case session_id of
                   Some s \<Rightarrow> if s \<noteq> [] then s
                             else (case latest_session (sessions d) of
                                     Some row \<Rightarrow> s_session_id row
                                   | None \<Rightarrow> strftime now)
                 | None \<Rightarrow> (case latest_session (sessions d) of
                              Some row \<Rightarrow> s_session_id row
                            | None \<Rightarrow> strftime now))
      in d\<lparr>tasks := tasks d @
              [\<lparr>t_id = Suc (tasks_seq d), t_session_id = sid, t_task_id = task_id,
                t_agent_role = agent_role, t_description = description,
                t_status = Some ''pending'', t_created_at = isoformat now,
                t_completed_at = None\<rparr>],
           tasks_seq := Suc (tasks_seq d)\<rparr>)"

text \<open>
  \<^verbatim>\<open>update_task\<close> collects the \<^verbatim>\<open>SET\<close> clauses in the list \<^verbatim>\<open>updates\<close> and runs
  one \<^verbatim>\<open>UPDATE tasks SET ... WHERE task_id = ?\<close> when the list is not empty.
\<close>

datatype assignment =
    Set_status string
  | Set_completed_at string
  | Set_agent_role string
  | Set_description string

fun assign :: "assignment \<Rightarrow> task_row \<Rightarrow> task_row" where
  "assign (Set_status v) r = r\<lparr>t_status := Some v\<rparr>"
| "assign (Set_completed_at v) r = r\<lparr>t_completed_at := Some v\<rparr>"
| "assign (Set_agent_role v) r = r\<lparr>t_agent_role := Some v\<rparr>"
| "assign (Set_description v) r = r\<lparr>t_description := Some v\<rparr>"

definition execute_update :: "assignment list \<Rightarrow> string \<Rightarrow> db \<Rightarrow> db" where
  "execute_update updates task_id d =
     d\<lparr>tasks := map (\<lambda>r. if t_task_id r = task_id then fold assign updates r else r)
                     (tasks d)\<rparr>"

definition collect_updates ::
  "string option \<Rightarrow> string option \<Rightarrow> string option \<Rightarrow> datetime \<Rightarrow> assignment list" where
  "collect_updates status agent_role description now =
     (case status of
        None \<Rightarrow> []
      | Some s \<Rightarrow> if s = [] then []
                  else Set_status s #
                       (if s = ''completed'' then [Set_completed_at (isoformat now)] else []))
     @ (case agent_role of
          None \<Rightarrow> []
        | Some a \<Rightarrow> if a = [] then [] else [Set_agent_role a])
     @ (case description of
          None \<Rightarrow> []
        | Some t \<Rightarrow> if t = [] then [] else [Set_description t])"

definition update_task ::
  "string \<Rightarrow> string option \<Rightarrow> string option \<Rightarrow> string option \<Rightarrow> datetime \<Rightarrow> db \<Rightarrow> db" where
  "update_task task_id status agent_role description now d =
     (let updates = collect_updates status agent_role description now
      in if updates \<noteq> [] then execute_update updates task_id d else d)"

definition delete_task :: "string \<Rightarrow> db \<Rightarrow> db" where
  "delete_task task_id d = d\<lparr>tasks := filter (\<lambda>r. t_task_id r \<noteq> task_id) (tasks d)\<rparr>"

definition get_session_id :: "db \<Rightarrow> string option" where
  "get_session_id d = map_option s_session_id (latest_session (sessions d))"

subsection \<open>\<^verbatim>\<open>ProjectState\<close> of the dashboard (autonomous\_project\_web.py)\<close>

text \<open>
  The dashboard's class has its own \<^verbatim>\<open>update_task\<close> and \<^verbatim>\<open>delete_task\<close>, with
  the statements of the \<^verbatim>\<open>TaskSync\<close> ones and no progress line.
\<close>

definition web_update_task ::
  "string \<Rightarrow> string option \<Rightarrow> string option \<Rightarrow> string option \<Rightarrow> datetime \<Rightarrow> db \<Rightarrow> db" where
  "web_update_task task_id status agent_role description now d =
     (let updates =
            (case status of
               None \<Rightarrow> []
             | Some s \<Rightarrow> if s = [] then []
                         else Set_status s #
                              (if s = ''completed'' then [Set_completed_at (isoformat now)]
                               else []))
            @ (case agent_role of
                 None \<Rightarrow> []
               | Some a \<Rightarrow> if a = [] then [] else [Set_agent_role a])
            @ (case description of
                 None \<Rightarrow> []
               | Some t \<Rightarrow> if t = [] then [] else [Set_description t])
      in if updates \<noteq> [] then execute_update updates task_id d else d)"

definition web_delete_task :: "string \<Rightarrow> db \<Rightarrow> db" where
  "web_delete_task task_id d =
     d\<lparr>tasks := filter (\<lambda>r. t_task_id r \<noteq> task_id) (tasks d)\<rparr>"

subsection \<open>The agent utility (sync\_agent\_to\_db.py)\<close>

text \<open>
  Both functions first look for the file and give up (returning \<^verbatim>\<open>False\<close>) when it
  is not there; the argument is the file as found. \<^verbatim>\<open>sync_agent\<close> reads the clock
  for the session it may have to insert (\<open>now_session\<close>) and again for the agent
  row (\<open>now\<close>). The session insert happens only when the table is empty, so its
  primary key cannot clash.
\<close>

datatype message = Database_not_found | Updated_agent_status | Agent_not_found

definition sync_agent ::
  "db option \<Rightarrow> string \<Rightarrow> string \<Rightarrow> string option \<Rightarrow> string \<Rightarrow> datetime \<Rightarrow> datetime
     \<Rightarrow> db option \<times> bool" where
  "sync_agent file role agent_id session_id status now_session now =
     (case file of
        None \<Rightarrow> (None, False)
      | Some d \<Rightarrow>
          (let (sid, d1) =
                 (if truthy session_id then (the session_id, d)
                  else (case latest_session (sessions d) of
                          Some row \<Rightarrow> (s_session_id row, d)
                        | None \<Rightarrow>
                            (strftime now_session,
                             d\<lparr>sessions := sessions d @
                                  [\<lparr>s_session_id = strftime now_session,
                                    s_created_at = isoformat now_session,
                                    s_project_goal = ''Autonomous Project'',
                                    s_current_phase = Some ''implementation''\<rparr>]\<rparr>)))
           in (Some (d1\<lparr>agents := agents d1 @
                          [\<lparr>a_id = Suc (agents_seq d1), a_session_id = sid, a_role = role,
                            a_agent_id = Some agent_id, a_started_at = isoformat now,
                            a_status = Some status\<rparr>],
                        agents_seq := Suc (agents_seq d1)\<rparr>),
               True)))"

text \<open>
  \<^verbatim>\<open>update_agent_status\<close> commits only when \<^verbatim>\<open>cursor.rowcount > 0\<close>; otherwise the
  connection is closed on an open transaction, which SQLite rolls back. The result
  is the file afterwards, the line printed and the value returned.
\<close>

definition update_agent_status ::
  "db option \<Rightarrow> string \<Rightarrow> string \<Rightarrow> db option \<times> message \<times> bool" where
  "update_agent_status file agent_id status =
     (case file of
        None \<Rightarrow> (None, Database_not_found, False)
      | Some d \<Rightarrow>
          (let rowcount = length (filter (\<lambda>a. a_agent_id a = Some agent_id) (agents d));
               d' = d\<lparr>agents := map (\<lambda>a. if a_agent_id a = Some agent_id
                                          then a\<lparr>a_status := Some status\<rparr> else a)
                                    (agents d)\<rparr>
           in if rowcount > 0 then (Some d', Updated_agent_status, True)
              else (Some d, Agent_not_found, True)))"

section \<open>The reconcilers\<close>

text \<open>
  Both reconcilers run \<^verbatim>\<open>json.loads\<close> on their argument and then test
  \<^verbatim>\<open>isinstance(tasks, list)\<close>. The parser belongs to Python, so the model starts
  from its outcome: a decode error or a JSON value. A task record is a JSON object
  whose values are strings or \<^verbatim>\<open>null\<close> (the shape of the task list the agents
  print), given by its items, keys distinct; arrays with other elements and
  records with numbers, booleans or nested values are outside the model.
\<close>

type_synonym task_record = "(string \<times> string option) list"

datatype json_value =
    Json_array "task_record list"
  | Json_object task_record
  | Json_string string
  | Json_number int
  | Json_bool bool
  | Json_null

datatype parsed = Decode_error | Parsed json_value

text \<open>\<^verbatim>\<open>task.get(key, default)\<close>, \<^verbatim>\<open>a or b\<close> and \<^verbatim>\<open>str(x)\<close> on such values.\<close>

definition dict_get :: "task_record \<Rightarrow> string \<Rightarrow> string option \<Rightarrow> string option" where
  "dict_get task key dflt = (case map_of task key of None \<Rightarrow> dflt | Some v \<Rightarrow> v)"

definition py_or :: "string option \<Rightarrow> string option \<Rightarrow> string option" where
  "py_or a b = (if truthy a then a else b)"

fun py_str :: "string option \<Rightarrow> string" where
  "py_str None = ''None''"
| "py_str (Some s) = s"

text \<open>
  The lines a reconciler prints itself (the progress lines of \<^verbatim>\<open>create_task\<close> and
  \<^verbatim>\<open>update_task\<close> are not modelled).
\<close>

datatype report = Expected_array | Json_parsing_error | Synced nat

text \<open>
  \<^verbatim>\<open>CoordinatorAgent.sync_tasks_from_json\<close>. The loop carries the store and
  \<^verbatim>\<open>synced_count\<close>. \<open>clock\<close> gives the clock readings of the store calls: for the
  record at position \<open>k\<close> of the list, \<open>clock (2 * k)\<close> is read by \<^verbatim>\<open>create_task\<close> and
  \<open>clock (2 * k + 1)\<close> by \<^verbatim>\<open>update_task\<close>. \<open>task_sync\<close> says whether
  \<^verbatim>\<open>self.task_sync\<close> is set.
\<close>

fun sync_tasks_from_json_loop ::
  "(nat \<Rightarrow> datetime) \<Rightarrow> nat \<Rightarrow> task_record list \<Rightarrow> db \<Rightarrow> nat \<Rightarrow> db \<times> nat" where
  "sync_tasks_from_json_loop clock k [] d synced_count = (d, synced_count)"
| "sync_tasks_from_json_loop clock k (task # rest) d synced_count =
     (let task_id = py_or (dict_get task ''id'' None) (dict_get task ''task_id'' None);
          subject = dict_get task ''subject'' (Some []);
          description = dict_get task ''description'' subject;
          status = dict_get task ''status'' (Some ''pending'');
          owner = dict_get task ''owner'' None
      in if truthy task_id then
           (let exists = (filter (\<lambda>r. t_task_id r = py_str task_id) (tasks d) \<noteq> []);
                d1 = (if \<not> exists
                      then create_task (py_str task_id) description owner None (clock (2 * k)) d
                      else d);
                synced_count1 = (if \<not> exists then synced_count + 1 else synced_count);
                d2 = (if status \<noteq> Some ''pending''
                      then update_task (py_str task_id) status None None (clock (2 * k + 1)) d1
                      else d1)
            in sync_tasks_from_json_loop clock (Suc k) rest d2 synced_count1)
         else sync_tasks_from_json_loop clock (Suc k) rest d synced_count)"

definition sync_tasks_from_json ::
  "bool \<Rightarrow> (nat \<Rightarrow> datetime) \<Rightarrow> parsed \<Rightarrow> db \<Rightarrow> db \<times> report list" where
  "sync_tasks_from_json task_sync clock tasks_json d =
     (if \<not> task_sync then (d, [])
      else (case tasks_json of
              Decode_error \<Rightarrow> (d, [Json_parsing_error])
            | Parsed loaded \<Rightarrow>
                (case loaded of
                   Json_array ts \<Rightarrow>
                     (let (d', synced_count) = sync_tasks_from_json_loop clock 0 ts d 0
                      in (d', if synced_count > 0 then [Synced synced_count] else []))
                 | _ \<Rightarrow> (d, [Expected_array]))))"

text \<open>
  \<^verbatim>\<open>sync_from_json\<close> of sync\_tasks\_to\_db.py. \<^verbatim>\<open>TaskSync(project_dir)\<close> comes
  first: it builds the schema when there is no file.
\<close>

fun sync_from_json_loop ::
  "(nat \<Rightarrow> datetime) \<Rightarrow> nat \<Rightarrow> task_record list \<Rightarrow> db \<Rightarrow> nat \<Rightarrow> db \<times> nat" where
  "sync_from_json_loop clock k [] d synced_count = (d, synced_count)"
| "sync_from_json_loop clock k (task # rest) d synced_count =
     (let task_id = py_or (dict_get task ''id'' None) (dict_get task ''task_id'' None);
          description = py_or (dict_get task ''description'' None)
                              (dict_get task ''subject'' (Some ''No description''));
          status = dict_get task ''status'' (Some ''pending'');
          agent_role = py_or (dict_get task ''agent_role'' None) (dict_get task ''owner'' None)
      in if truthy task_id then
           (let d1 = create_task (py_str task_id) description agent_role None (clock (2 * k)) d;
                d2 = (if status \<noteq> Some ''pending''
                      then update_task (py_str task_id) status None None (clock (2 * k + 1)) d1
                      else d1)
            in sync_from_json_loop clock (Suc k) rest d2 (synced_count + 1))
         else sync_from_json_loop clock (Suc k) rest d synced_count)"

definition sync_from_json ::
  "(nat \<Rightarrow> datetime) \<Rightarrow> parsed \<Rightarrow> db option \<Rightarrow> db \<times> report list" where
  "sync_from_json clock tasks_json file =
     (let d = init_database file
      in (case tasks_json of
            Decode_error \<Rightarrow> (d, [Json_parsing_error])
          | Parsed loaded \<Rightarrow>
              (case loaded of
                 Json_array ts \<Rightarrow>
                   (let (d', synced_count) = sync_from_json_loop clock 0 ts d 0
                    in (d', [Synced synced_count]))
               | _ \<Rightarrow> (d, [Expected_array]))))"

section \<open>Runs of store operations\<close>

text \<open>
  The task operations that the handles of the console harness, the dashboard and
  the sync layer issue against one file, in the order in which they commit.
\<close>

datatype store_op =
    Add_task string string "string option" "string option" datetime
  | Update_task string "string option" "string option" "string option" datetime
  | Complete_task string string datetime
  | Delete_task string

fun apply_op :: "store_op \<Rightarrow> db \<Rightarrow> db" where
  "apply_op (Add_task sid task_id agent_role description now) d =
     add_task sid task_id agent_role description now d"
| "apply_op (Update_task task_id status agent_role description now) d =
     update_task task_id status agent_role description now d"
| "apply_op (Complete_task sid task_id now) d = complete_task sid task_id now d"
| "apply_op (Delete_task task_id) d = delete_task task_id d"

definition run :: "store_op list \<Rightarrow> db \<Rightarrow> db" where
  "run ops d = fold apply_op ops d"

text \<open>The rows of a session that count as completed, as a set of rows.\<close>

definition completed_rows :: "string \<Rightarrow> db \<Rightarrow> task_row set" where
  "completed_rows sid d =
     {r. r \<in> set (tasks d) \<and> t_session_id r = sid \<and> t_status r = Some ''completed''}"

text \<open>What the id counter guarantees: ids are distinct and none is above the counter.\<close>

definition ids_ok :: "db \<Rightarrow> bool" where
  "ids_ok d = (distinct (map t_id (tasks d)) \<and> list_all (\<lambda>r. t_id r \<le> tasks_seq d) (tasks d))"

section \<open>What a reconciliation is expected to leave behind\<close>

text \<open>
  The identifier a reconciler reads from a record, the identifier strings of a
  list, and the status a task ends up with: \<open>expected_status ts i cur\<close> starts from
  \<open>cur\<close> and takes, record by record, the status of each record for \<open>i\<close> whose
  status is a non-empty string other than \<^verbatim>\<open>'pending'\<close>.
\<close>

definition task_identifier :: "task_record \<Rightarrow> string option" where
  "task_identifier task = py_or (dict_get task ''id'' None) (dict_get task ''task_id'' None)"

definition input_ids :: "task_record list \<Rightarrow> string list" where
  "input_ids ts = map (\<lambda>t. py_str (task_identifier t)) (filter (\<lambda>t. truthy (task_identifier t)) ts)"

fun expected_status :: "task_record list \<Rightarrow> string \<Rightarrow> string \<Rightarrow> string" where
  "expected_status [] i cur = cur"
| "expected_status (t # ts) i cur =
     expected_status ts i
       (case dict_get t ''status'' (Some ''pending'') of
          None \<Rightarrow> cur
        | Some s \<Rightarrow> if truthy (task_identifier t) \<and> py_str (task_identifier t) = i
                        \<and> s \<noteq> [] \<and> s \<noteq> ''pending''
                     then s else cur)"

section \<open>Example inputs\<close>

definition noon :: datetime where
  "noon = \<lparr>isoformat = ''2026-02-13T12:00:00'', strftime = ''20260213_120000''\<rparr>"

definition later :: datetime where
  "later = \<lparr>isoformat = ''2026-02-14T09:30:00'', strftime = ''20260214_093000''\<rparr>"

text \<open>
  A store with two sessions, the second the more recent, one agent, and a task
  \<^verbatim>\<open>t1\<close> in each session.
\<close>

definition two_sessions :: db where
  "two_sessions =
     \<lparr>sessions =
        [\<lparr>s_session_id = ''20260213_120000'', s_created_at = ''2026-02-13T12:00:00'',
          s_project_goal = ''Build a todo app'', s_current_phase = Some ''planning''\<rparr>,
         \<lparr>s_session_id = ''20260214_093000'', s_created_at = ''2026-02-14T09:30:00'',
          s_project_goal = ''Build a todo app'', s_current_phase = Some ''initialization''\<rparr>],
      agents =
        [\<lparr>a_id = 1, a_session_id = ''20260213_120000'', a_role = ''builder'',
          a_agent_id = Some ''builder_001'', a_started_at = ''2026-02-13T12:00:05'',
          a_status = Some ''active''\<rparr>],
      agents_seq = 1,
      tasks =
        [\<lparr>t_id = 1, t_session_id = ''20260213_120000'', t_task_id = ''t1'',
          t_agent_role = Some ''builder'', t_description = Some ''scaffold project'',
          t_status = Some ''pending'', t_created_at = ''2026-02-13T12:01:00'',
          t_completed_at = None\<rparr>,
         \<lparr>t_id = 2, t_session_id = ''20260214_093000'', t_task_id = ''t1'',
          t_agent_role = Some ''tester'', t_description = Some ''write tests'',
          t_status = Some ''in_progress'', t_created_at = ''2026-02-14T09:31:00'',
          t_completed_at = None\<rparr>],
      tasks_seq = 2,
      reports = [],
      reports_seq = 0\<rparr>"

text \<open>Clocks that stand still, and a task list with a repeated and a missing identifier.\<close>

definition noon_clock :: "nat \<Rightarrow> datetime" where
  "noon_clock k = noon"

definition later_clock :: "nat \<Rightarrow> datetime" where
  "later_clock k = later"

definition example_tasks :: "task_record list" where
  "example_tasks =
     [[(''id'', Some ''t1''), (''status'', Some ''completed'')],
      [(''id'', Some ''t2''), (''subject'', Some ''write tests'')],
      [(''subject'', Some ''no identifier'')],
      [(''task_id'', Some ''t1''), (''status'', Some [])]]"

section \<open>Properties of the store operations\<close>

lemma web_update_task_eq: "web_update_task = update_task"
  by (intro ext) (simp add: web_update_task_def update_task_def collect_updates_def)

lemma tasks_execute_update:
  "tasks (execute_update us tid d) =
     map (\<lambda>r. if t_task_id r = tid then fold assign us r else r) (tasks d)"
  by (simp add: execute_update_def)

lemma tasks_update_task:
  "tasks (update_task tid st ro de now d) =
     map (\<lambda>r. if t_task_id r = tid then fold assign (collect_updates st ro de now) r else r)
         (tasks d)"
  by (simp add: update_task_def Let_def tasks_execute_update cong: if_cong)

lemma update_task_other_tables:
  "sessions (update_task tid st ro de now d) = sessions d"
  "agents (update_task tid st ro de now d) = agents d"
  "tasks_seq (update_task tid st ro de now d) = tasks_seq d"
  by (simp_all add: update_task_def Let_def execute_update_def)

lemma fold_assign_fields:
  "t_status (fold assign (collect_updates st ro de now) r) =
     (if truthy st then st else t_status r)"
  "t_agent_role (fold assign (collect_updates st ro de now) r) =
     (if truthy ro then ro else t_agent_role r)"
  "t_description (fold assign (collect_updates st ro de now) r) =
     (if truthy de then de else t_description r)"
  "t_completed_at (fold assign (collect_updates st ro de now) r) =
     (if st = Some ''completed'' then Some (isoformat now) else t_completed_at r)"
  "t_id (fold assign (collect_updates st ro de now) r) = t_id r"
  "t_task_id (fold assign (collect_updates st ro de now) r) = t_task_id r"
  "t_session_id (fold assign (collect_updates st ro de now) r) = t_session_id r"
  "t_created_at (fold assign (collect_updates st ro de now) r) = t_created_at r"
  by (auto simp: collect_updates_def split: option.split)

lemma t_id_update_task:
  "map t_id (tasks (update_task tid st ro de now d)) = map t_id (tasks d)"
  by (simp add: tasks_update_task fold_assign_fields o_def cong: if_cong)

lemma list_all2_map_self: "list_all2 P xs (map f xs) = list_all (\<lambda>x. P x (f x)) xs"
  by (induction xs) simp_all

lemma latest_session_None: "latest_session ss = None \<longleftrightarrow> ss = []"
  by (induction ss) (auto split: option.splits)

lemma latest_session_mem: "latest_session ss = Some m \<Longrightarrow> m \<in> set ss"
  by (induction ss arbitrary: m) (auto split: option.splits if_splits)

subsection \<open>Sessions of new rows\<close>

text \<open>
  With at least one session in the store, \<^verbatim>\<open>create_task\<close> without a session id
  files the task under a session that exists; \<^verbatim>\<open>sync_agent\<close> without a session
  id does so on every store, because it inserts the session it makes up.
\<close>

lemma create_task_resolves_session:
  assumes "sessions d \<noteq> []" "\<not> truthy session_id"
  shows "t_session_id (last (tasks (create_task tid de ro session_id now d)))
           \<in> s_session_id ` set (sessions (create_task tid de ro session_id now d))"
proof -
  obtain m where m: "latest_session (sessions d) = Some m"
    using assms(1) latest_session_None by (cases "latest_session (sessions d)") auto
  then have "m \<in> set (sessions d)" by (rule latest_session_mem)
  with m assms(2) show ?thesis
    by (cases session_id) (auto simp: create_task_def)
qed

lemma sync_agent_session_exists:
  assumes "sync_agent (Some d) role aid None st ns now = (Some d', ok)"
  shows "a_session_id (last (agents d')) \<in> s_session_id ` set (sessions d')"
proof (cases "latest_session (sessions d)")
  case None
  with assms show ?thesis by (auto simp: sync_agent_def)
next
  case (Some m)
  then have "m \<in> set (sessions d)" by (rule latest_session_mem)
  with Some assms show ?thesis by (auto simp: sync_agent_def)
qed

text \<open>
  C2. Every task row written by the system references an existing session: without
  an explicit session id, \<^verbatim>\<open>create_task\<close> resolves to the most recent session or
  otherwise makes sure the session exists. On a store without sessions (a project
  directory where only the sync layer has run) the code files the task under a
  session id made from the clock and inserts no session row, so the task is an
  orphan.
\<close>

theorem create_task_without_sessions_orphan:
  "sessions (create_task ''t1'' (Some ''scaffold project'') None None noon
              (init_database None)) = []
   \<and> map t_session_id (tasks (create_task ''t1'' (Some ''scaffold project'') None None noon
              (init_database None))) = [''20260213_120000'']"
  by (simp add: create_task_def init_database_def noon_def)

subsection \<open>Which rows an update touches\<close>

text \<open>
  C3, as the code has it. \<^verbatim>\<open>update_task\<close> matches rows by \<^verbatim>\<open>task_id\<close> alone,
  in every session: each row with that \<^verbatim>\<open>task_id\<close> takes the supplied non-empty
  fields and keeps its session, every other row is unchanged, and an update that
  matches no row leaves the store as it was.
\<close>

theorem update_task_matches_by_task_id:
  "list_all2 (\<lambda>r r'. if t_task_id r = tid
                     then t_status r' = (if truthy st then st else t_status r)
                          \<and> t_agent_role r' = (if truthy ro then ro else t_agent_role r)
                          \<and> t_description r' = (if truthy de then de else t_description r)
                          \<and> t_session_id r' = t_session_id r
                     else r' = r)
     (tasks d) (tasks (update_task tid st ro de now d))
   \<and> (tid \<notin> t_task_id ` set (tasks d) \<longrightarrow> update_task tid st ro de now d = d)
   \<and> web_update_task tid st ro de now d = update_task tid st ro de now d"
proof -
  have "update_task tid st ro de now d = d" if "tid \<notin> t_task_id ` set (tasks d)"
  proof -
    have "map (\<lambda>r. if t_task_id r = tid then fold assign us r else r) (tasks d) = tasks d" for us
      using that by (intro map_idI) auto
    then show ?thesis by (simp add: update_task_def Let_def execute_update_def)
  qed
  then show ?thesis
    by (simp add: tasks_update_task list_all2_map_self fold_assign_fields list_all_iff
          web_update_task_eq)
qed

text \<open>
  The statement above at the store with two sessions: completing \<^verbatim>\<open>t1\<close> changes
  both rows, and an update of the unknown \<^verbatim>\<open>t7\<close> changes nothing.
\<close>

theorem update_task_matches_by_task_id_witness:
  "map t_status (tasks (update_task ''t1'' (Some ''completed'') None None later two_sessions))
     = [Some ''completed'', Some ''completed'']
   \<and> ''t7'' \<notin> t_task_id ` set (tasks two_sessions)
   \<and> update_task ''t7'' (Some ''completed'') None None later two_sessions = two_sessions"
proof -
  have absent: "''t7'' \<notin> t_task_id ` set (tasks two_sessions)"
    by (simp add: two_sessions_def)
  have "update_task ''t7'' (Some ''completed'') None None later two_sessions = two_sessions"
    using update_task_matches_by_task_id
            [of "''t7''" "Some ''completed''" None None two_sessions later] absent
    by blast
  moreover have
    "map t_status (tasks (update_task ''t1'' (Some ''completed'') None None later two_sessions))
       = [Some ''completed'', Some ''completed'']"
    by (simp add: tasks_update_task fold_assign_fields two_sessions_def)
  ultimately show ?thesis using absent by simp
qed

text \<open>
  C3 as stated fails: in the store with two sessions the most recent session is the
  second one, and completing \<^verbatim>\<open>t1\<close> also changes the row of the first session, through
  the sync layer and through the dashboard alike.
\<close>

theorem update_task_crosses_sessions:
  "get_session_id two_sessions = Some ''20260214_093000''
   \<and> map t_session_id (tasks two_sessions) = [''20260213_120000'', ''20260214_093000'']
   \<and> map t_status (tasks two_sessions) = [Some ''pending'', Some ''in_progress'']
   \<and> map t_status (tasks (update_task ''t1'' (Some ''completed'') None None later two_sessions))
       = [Some ''completed'', Some ''completed'']
   \<and> map t_status (tasks (web_update_task ''t1'' (Some ''completed'') None None later
                            two_sessions))
       = [Some ''completed'', Some ''completed'']"
  by (simp add: get_session_id_def web_update_task_eq tasks_update_task fold_assign_fields
        two_sessions_def)

subsection \<open>The completed count\<close>

lemma ids_ok_apply_op: "ids_ok d \<Longrightarrow> ids_ok (apply_op op d)"
proof (cases op)
  case (Add_task sid tid ro de now)
  assume "ids_ok d"
  then show ?thesis unfolding Add_task
    by (auto simp: ids_ok_def add_task_def list_all_iff)
next
  case (Update_task tid st ro de now)
  assume "ids_ok d"
  then show ?thesis unfolding Update_task
    by (simp add: ids_ok_def t_id_update_task update_task_other_tables)
       (auto simp: tasks_update_task list_all_iff fold_assign_fields)
next
  case (Complete_task sid tid now)
  assume "ids_ok d"
  moreover have "map t_id (tasks (complete_task sid tid now d)) = map t_id (tasks d)"
    by (simp add: complete_task_def o_def cong: if_cong)
  ultimately show ?thesis unfolding Complete_task
    by (simp add: ids_ok_def) (auto simp: complete_task_def list_all_iff)
next
  case (Delete_task tid)
  assume "ids_ok d"
  then show ?thesis unfolding Delete_task
    by (simp add: ids_ok_def delete_task_def distinct_map_filter list_all_iff)
qed

lemma ids_ok_run: "ids_ok d \<Longrightarrow> ids_ok (run ops d)"
  unfolding run_def by (induction ops arbitrary: d) (simp_all add: ids_ok_apply_op)

lemma ids_ok_init: "ids_ok (init_database None)"
  by (simp add: ids_ok_def init_database_def)

lemma count_eq_card:
  assumes "ids_ok d"
  shows "get_completed_tasks_count sid d = card (completed_rows sid d)"
proof -
  from assms have "distinct (tasks d)" by (simp add: ids_ok_def distinct_map)
  then have
    "length (filter (\<lambda>r. t_session_id r = sid \<and> t_status r = Some ''completed'') (tasks d))
       = card {r \<in> set (tasks d). t_session_id r = sid \<and> t_status r = Some ''completed''}"
    by (simp add: distinct_length_filter Int_def conj_commute)
  then show ?thesis by (simp add: get_completed_tasks_count_def completed_rows_def)
qed

text \<open>
  C4. In every store reached from a fresh one by a run of add, update, complete and
  delete operations, issued for any sessions in any order, the completed count of a
  session is the number of task rows of that session whose status is
  \<^verbatim>\<open>'completed'\<close>.
\<close>

theorem get_completed_tasks_count_run:
  "get_completed_tasks_count sid (run ops (init_database None))
     = card (completed_rows sid (run ops (init_database None)))"
  by (rule count_eq_card) (rule ids_ok_run, rule ids_ok_init)

text \<open>
  A run with two sessions: two tasks added and completed in the first, one of them
  deleted, one task added in the second; the count of the first session is 1.
\<close>

theorem get_completed_tasks_count_run_witness:
  "get_completed_tasks_count ''s1''
     (run [Add_task ''s1'' ''a'' None None noon, Add_task ''s1'' ''b'' None None noon,
           Add_task ''s2'' ''c'' None None noon, Complete_task ''s1'' ''a'' later,
           Update_task ''b'' (Some ''completed'') None None later, Delete_task ''a'']
          (init_database None)) = 1
   \<and> card (completed_rows ''s1''
       (run [Add_task ''s1'' ''a'' None None noon, Add_task ''s1'' ''b'' None None noon,
             Add_task ''s2'' ''c'' None None noon, Complete_task ''s1'' ''a'' later,
             Update_task ''b'' (Some ''completed'') None None later, Delete_task ''a'']
            (init_database None))) = 1"
proof -
  have "get_completed_tasks_count ''s1''
     (run [Add_task ''s1'' ''a'' None None noon, Add_task ''s1'' ''b'' None None noon,
           Add_task ''s2'' ''c'' None None noon, Complete_task ''s1'' ''a'' later,
           Update_task ''b'' (Some ''completed'') None None later, Delete_task ''a'']
          (init_database None)) = 1"
    by (simp add: run_def get_completed_tasks_count_def init_database_def add_task_def
          complete_task_def delete_task_def update_task_def collect_updates_def
          execute_update_def)
  then show ?thesis
    using get_completed_tasks_count_run
            [of "''s1''"
                "[Add_task ''s1'' ''a'' None None noon, Add_task ''s1'' ''b'' None None noon,
                  Add_task ''s2'' ''c'' None None noon, Complete_task ''s1'' ''a'' later,
                  Update_task ''b'' (Some ''completed'') None None later, Delete_task ''a'']"]
    by simp
qed

subsection \<open>Completion stamps\<close>

text \<open>
  C5. An update whose status is \<^verbatim>\<open>'completed'\<close> sets, in the same statement, the
  status and \<^verbatim>\<open>completed_at\<close> of every row it matches, the latter to the clock
  reading of the call; a second completion stamps the reading of the second call;
  an update with any other status leaves every \<^verbatim>\<open>completed_at\<close> as it was.
  \<^verbatim>\<open>complete_task\<close> does the same for the rows of the handle's session.
\<close>

theorem update_task_completed_at:
  "list_all2 (\<lambda>r r'. t_status r' = (if t_task_id r = tid then Some ''completed'' else t_status r)
                    \<and> t_completed_at r' =
                        (if t_task_id r = tid then Some (isoformat now) else t_completed_at r))
     (tasks d) (tasks (update_task tid (Some ''completed'') ro de now d))
   \<and> list_all2 (\<lambda>r r'. t_completed_at r' =
                        (if t_task_id r = tid then Some (isoformat now2) else t_completed_at r))
     (tasks d)
     (tasks (update_task tid (Some ''completed'') ro2 de2 now2
               (update_task tid (Some ''completed'') ro de now d)))
   \<and> (st \<noteq> Some ''completed'' \<longrightarrow>
        map t_completed_at (tasks (update_task tid st ro de now d)) = map t_completed_at (tasks d))
   \<and> list_all2 (\<lambda>r r'. if t_task_id r = tid \<and> t_session_id r = sid
                       then t_status r' = Some ''completed''
                            \<and> t_completed_at r' = Some (isoformat now)
                       else r' = r)
     (tasks d) (tasks (complete_task sid tid now d))"
  by (simp add: tasks_update_task list_all2_map_self fold_assign_fields list_all_iff
        complete_task_def o_def)

text \<open>
  At the store with two sessions: an update to \<^verbatim>\<open>'in_progress'\<close> leaves the (empty)
  stamps alone, and completing \<^verbatim>\<open>t1\<close> at noon and again later leaves the later
  reading.
\<close>

theorem update_task_completed_at_witness:
  "Some ''in_progress'' \<noteq> Some ''completed''
   \<and> map t_completed_at (tasks (update_task ''t1'' (Some ''in_progress'') None None noon
                                  two_sessions)) = [None, None]
   \<and> map t_completed_at (tasks (update_task ''t1'' (Some ''completed'') None None noon
                                  two_sessions))
       = [Some ''2026-02-13T12:00:00'', Some ''2026-02-13T12:00:00'']
   \<and> map t_completed_at
         (tasks (update_task ''t1'' (Some ''completed'') None None later
                   (update_task ''t1'' (Some ''completed'') None None noon two_sessions)))
       = [Some ''2026-02-14T09:30:00'', Some ''2026-02-14T09:30:00'']"
proof -
  have ne: "Some ''in_progress'' \<noteq> Some ''completed''" by simp
  have "map t_completed_at (tasks (update_task ''t1'' (Some ''in_progress'') None None noon
                                     two_sessions)) = map t_completed_at (tasks two_sessions)"
    using update_task_completed_at
            [of "''t1''" noon two_sessions None None later None None "Some ''in_progress''"] ne
    by blast
  then show ?thesis
    by (simp add: tasks_update_task fold_assign_fields two_sessions_def noon_def later_def)
qed

subsection \<open>Duplicates\<close>

text \<open>
  C6. \<^verbatim>\<open>add_task\<close> checks nothing: two calls with the same \<^verbatim>\<open>task_id\<close> in one
  session append two rows with different ids, and \<^verbatim>\<open>delete_task\<close> with that
  \<^verbatim>\<open>task_id\<close> then removes both, with every other row of that \<^verbatim>\<open>task_id\<close>.
\<close>

theorem add_task_twice_delete_task:
  "(\<exists>r1 r2. tasks (add_task sid tid ro2 de2 now2 (add_task sid tid ro1 de1 now1 d))
              = tasks d @ [r1, r2]
            \<and> t_id r1 = Suc (tasks_seq d) \<and> t_id r2 = Suc (Suc (tasks_seq d))
            \<and> t_task_id r1 = tid \<and> t_task_id r2 = tid
            \<and> t_session_id r1 = sid \<and> t_session_id r2 = sid)
   \<and> tasks (delete_task tid (add_task sid tid ro2 de2 now2 (add_task sid tid ro1 de1 now1 d)))
       = filter (\<lambda>r. t_task_id r \<noteq> tid) (tasks d)
   \<and> tid \<notin> t_task_id ` set (tasks (delete_task tid
               (add_task sid tid ro2 de2 now2 (add_task sid tid ro1 de1 now1 d))))"
  by (auto simp: add_task_def delete_task_def)

text \<open>On a fresh store: two rows \<^verbatim>\<open>t1\<close> with ids 1 and 2, and none after the delete.\<close>

theorem add_task_twice_delete_task_witness:
  "map t_id (tasks (add_task ''s1'' ''t1'' None (Some ''again'') later
                      (add_task ''s1'' ''t1'' None (Some ''first'') noon (init_database None))))
     = [1, 2]
   \<and> tasks (delete_task ''t1''
              (add_task ''s1'' ''t1'' None (Some ''again'') later
                 (add_task ''s1'' ''t1'' None (Some ''first'') noon (init_database None)))) = []"
  using add_task_twice_delete_task
          [of "''s1''" "''t1''" None "Some ''again''" later None "Some ''first''" noon
              "init_database None"]
  by (simp add: add_task_def init_database_def)

subsection \<open>Partial updates\<close>

text \<open>
  C7. A partial update keeps what it is not given: with only a status, every row
  keeps its description and its agent role; with only a description, every row
  keeps its status, agent role and completion stamp; with only an agent role,
  every row keeps its status, description and completion stamp. This holds for the
  sync layer's \<^verbatim>\<open>update_task\<close> and for the dashboard's.
\<close>

theorem update_task_frame:
  "map t_description (tasks (update_task tid st None None now d)) = map t_description (tasks d)
   \<and> map t_agent_role (tasks (update_task tid st None None now d)) = map t_agent_role (tasks d)
   \<and> map t_status (tasks (update_task tid None None de now d)) = map t_status (tasks d)
   \<and> map t_agent_role (tasks (update_task tid None None de now d)) = map t_agent_role (tasks d)
   \<and> map t_completed_at (tasks (update_task tid None None de now d))
       = map t_completed_at (tasks d)
   \<and> map t_status (tasks (update_task tid None ro None now d)) = map t_status (tasks d)
   \<and> map t_description (tasks (update_task tid None ro None now d))
       = map t_description (tasks d)
   \<and> map t_completed_at (tasks (update_task tid None ro None now d))
       = map t_completed_at (tasks d)
   \<and> map t_description (tasks (web_update_task tid st None None now d))
       = map t_description (tasks d)
   \<and> map t_agent_role (tasks (web_update_task tid st None None now d))
       = map t_agent_role (tasks d)
   \<and> map t_status (tasks (web_update_task tid None None de now d)) = map t_status (tasks d)
   \<and> map t_agent_role (tasks (web_update_task tid None None de now d))
       = map t_agent_role (tasks d)
   \<and> map t_status (tasks (web_update_task tid None ro None now d)) = map t_status (tasks d)
   \<and> map t_description (tasks (web_update_task tid None ro None now d))
       = map t_description (tasks d)"
  unfolding web_update_task_eq
  by (simp add: tasks_update_task collect_updates_def split: option.split)

text \<open>
  At the store with two sessions, a status-only update of \<^verbatim>\<open>t1\<close> changes the
  statuses and keeps descriptions and roles.
\<close>

theorem update_task_frame_witness:
  "map t_status (tasks (update_task ''t1'' (Some ''awaiting_approval'') None None noon
                          two_sessions))
     = [Some ''awaiting_approval'', Some ''awaiting_approval'']
   \<and> map t_description (tasks (update_task ''t1'' (Some ''awaiting_approval'') None None noon
                                 two_sessions))
     = [Some ''scaffold project'', Some ''write tests'']
   \<and> map t_agent_role (tasks (update_task ''t1'' (Some ''awaiting_approval'') None None noon
                                two_sessions))
     = [Some ''builder'', Some ''tester'']"
proof -
  have "map t_status (tasks (update_task ''t1'' (Some ''awaiting_approval'') None None noon
                          two_sessions))
     = [Some ''awaiting_approval'', Some ''awaiting_approval'']"
    by (simp add: tasks_update_task fold_assign_fields two_sessions_def)
  moreover have "map t_description (tasks two_sessions)
                   = [Some ''scaffold project'', Some ''write tests'']"
    and "map t_agent_role (tasks two_sessions) = [Some ''builder'', Some ''tester'']"
    by (simp_all add: two_sessions_def)
  ultimately show ?thesis
    using update_task_frame
            [of "''t1''" "Some ''awaiting_approval''" noon two_sessions None None]
    by simp
qed

subsection \<open>Agent status\<close>

text \<open>
  C9. \<^verbatim>\<open>update_agent_status\<close> matches agent rows by the external \<^verbatim>\<open>agent_id\<close>.
  When no row has it, the call reports that the agent was not found, returns
  normally and leaves the store as it was; when rows have it, exactly those rows
  get the new status and nothing else changes.
\<close>

theorem update_agent_status_by_agent_id:
  "(Some agent_id \<notin> a_agent_id ` set (agents d) \<longrightarrow>
      update_agent_status (Some d) agent_id st = (Some d, Agent_not_found, True))
   \<and> (Some agent_id \<in> a_agent_id ` set (agents d) \<longrightarrow>
      (\<exists>d'. update_agent_status (Some d) agent_id st = (Some d', Updated_agent_status, True)
           \<and> list_all2 (\<lambda>a a'. a' = (if a_agent_id a = Some agent_id
                                      then a\<lparr>a_status := Some st\<rparr> else a))
                (agents d) (agents d')
           \<and> sessions d' = sessions d \<and> tasks d' = tasks d \<and> reports d' = reports d))"
proof -
  have hit: "(filter (\<lambda>a. a_agent_id a = Some agent_id) (agents d) \<noteq> [])
               = (Some agent_id \<in> a_agent_id ` set (agents d))"
    by (force simp: filter_empty_conv)
  show ?thesis
    by (simp add: update_agent_status_def Let_def hit list_all2_map_self list_all_iff)
qed

text \<open>
  At the store with two sessions: \<^verbatim>\<open>tester_009\<close> is unknown, \<^verbatim>\<open>builder_001\<close> is the
  agent with record id 1. The string \<^verbatim>\<open>1\<close>, the record id of that agent, matches
  nothing.
\<close>

theorem update_agent_status_by_agent_id_witness:
  "Some ''tester_009'' \<notin> a_agent_id ` set (agents two_sessions)
   \<and> update_agent_status (Some two_sessions) ''tester_009'' ''retired''
       = (Some two_sessions, Agent_not_found, True)
   \<and> Some ''builder_001'' \<in> a_agent_id ` set (agents two_sessions)
   \<and> fst (snd (update_agent_status (Some two_sessions) ''builder_001'' ''retired''))
       = Updated_agent_status
   \<and> fst (snd (update_agent_status (Some two_sessions) ''1'' ''retired'')) = Agent_not_found"
proof -
  have a: "Some ''tester_009'' \<notin> a_agent_id ` set (agents two_sessions)"
    and b: "Some ''builder_001'' \<in> a_agent_id ` set (agents two_sessions)"
    and c: "Some ''1'' \<notin> a_agent_id ` set (agents two_sessions)"
    by (simp_all add: two_sessions_def)
  from a have "update_agent_status (Some two_sessions) ''tester_009'' ''retired''
       = (Some two_sessions, Agent_not_found, True)"
    using update_agent_status_by_agent_id [of "''tester_009''" two_sessions "''retired''"]
    by blast
  moreover from b have
    "fst (snd (update_agent_status (Some two_sessions) ''builder_001'' ''retired''))
       = Updated_agent_status"
    using update_agent_status_by_agent_id [of "''builder_001''" two_sessions "''retired''"]
    by auto
  moreover from c have
    "fst (snd (update_agent_status (Some two_sessions) ''1'' ''retired'')) = Agent_not_found"
    using update_agent_status_by_agent_id [of "''1''" two_sessions "''retired''"]
    by auto
  ultimately show ?thesis using a b by simp
qed

subsection \<open>Empty arguments\<close>

text \<open>
  C10. An \<^verbatim>\<open>update_task\<close> call whose status, agent role and description are each
  absent or the empty string writes nothing: the store is unchanged. And whatever
  the arguments, each of the three fields of each row afterwards is what it was or
  a non-empty string, so no update clears a field. This holds for the sync layer's
  \<^verbatim>\<open>update_task\<close> and for the dashboard's.
\<close>

theorem update_task_empty_arguments:
  "(st \<in> {None, Some []} \<and> ro \<in> {None, Some []} \<and> de \<in> {None, Some []} \<longrightarrow>
      update_task tid st ro de now d = d \<and> web_update_task tid st ro de now d = d)
   \<and> list_all2 (\<lambda>r r'. (t_status r' = t_status r \<or> (\<exists>s. s \<noteq> [] \<and> t_status r' = Some s))
                    \<and> (t_agent_role r' = t_agent_role r
                         \<or> (\<exists>s. s \<noteq> [] \<and> t_agent_role r' = Some s))
                    \<and> (t_description r' = t_description r
                         \<or> (\<exists>s. s \<noteq> [] \<and> t_description r' = Some s)))
       (tasks d) (tasks (update_task tid st ro de now d))
   \<and> tasks (web_update_task tid st ro de now d) = tasks (update_task tid st ro de now d)"
proof -
  have "update_task tid st ro de now d = d"
    if "st \<in> {None, Some []}" "ro \<in> {None, Some []}" "de \<in> {None, Some []}"
    using that by (auto simp: update_task_def collect_updates_def)
  moreover have
    "list_all2 (\<lambda>r r'. (t_status r' = t_status r \<or> (\<exists>s. s \<noteq> [] \<and> t_status r' = Some s))
                    \<and> (t_agent_role r' = t_agent_role r
                         \<or> (\<exists>s. s \<noteq> [] \<and> t_agent_role r' = Some s))
                    \<and> (t_description r' = t_description r
                         \<or> (\<exists>s. s \<noteq> [] \<and> t_description r' = Some s)))
       (tasks d) (tasks (update_task tid st ro de now d))"
    by (cases st; cases ro; cases de)
       (simp_all add: tasks_update_task list_all2_map_self fold_assign_fields list_all_iff)
  ultimately show ?thesis by (simp add: web_update_task_eq)
qed

text \<open>
  At the store with two sessions, an update of \<^verbatim>\<open>t1\<close> with an empty status, no role
  and an empty description changes nothing.
\<close>

theorem update_task_empty_arguments_witness:
  "Some [] \<in> {None, Some ([] :: string)} \<and> None \<in> {None, Some ([] :: string)}
   \<and> update_task ''t1'' (Some []) None (Some []) noon two_sessions = two_sessions
   \<and> web_update_task ''t1'' (Some []) None (Some []) noon two_sessions = two_sessions
   \<and> map t_description (tasks (update_task ''t1'' (Some []) None (Some []) noon two_sessions))
       = [Some ''scaffold project'', Some ''write tests'']"
proof -
  have "update_task ''t1'' (Some []) None (Some []) noon two_sessions = two_sessions
        \<and> web_update_task ''t1'' (Some []) None (Some []) noon two_sessions = two_sessions"
    using update_task_empty_arguments [of "Some []" None "Some []" "''t1''" noon two_sessions]
    by simp
  moreover have "map t_description (tasks two_sessions)
                   = [Some ''scaffold project'', Some ''write tests'']"
    by (simp add: two_sessions_def)
  ultimately show ?thesis by simp
qed

section \<open>Properties of the reconcilers\<close>

subsection \<open>One pass of the coordinator's loop\<close>

lemma exists_iff:
  "(filter (\<lambda>r. t_task_id r = i) (tasks d) \<noteq> []) = (i \<in> t_task_id ` set (tasks d))"
  by (force simp: filter_empty_conv)

lemma tasks_create_task:
  "\<exists>row. tasks (create_task i de ow sid now d) = tasks d @ [row] \<and> t_task_id row = i
       \<and> t_status row = Some ''pending'' \<and> t_id row = Suc (tasks_seq d)
       \<and> t_description row = de \<and> t_agent_role row = ow \<and> t_completed_at row = None"
  by (simp add: create_task_def Let_def)

lemma create_task_other:
  "tasks_seq (create_task i de ow sid now d) = Suc (tasks_seq d)"
  "sessions (create_task i de ow sid now d) = sessions d"
  by (simp_all add: create_task_def Let_def)

lemma loop_Cons:
  "sync_tasks_from_json_loop clock k (t # ts) d n =
     (if truthy (task_identifier t) then
        sync_tasks_from_json_loop clock (Suc k) ts
          (let i = py_str (task_identifier t);
               st = dict_get t ''status'' (Some ''pending'');
               d1 = (if i \<in> t_task_id ` set (tasks d) then d
                     else create_task i (dict_get t ''description'' (dict_get t ''subject'' (Some [])))
                            (dict_get t ''owner'' None) None (clock (2 * k)) d)
           in if st \<noteq> Some ''pending''
              then update_task i st None None (clock (2 * k + 1)) d1 else d1)
          (if py_str (task_identifier t) \<in> t_task_id ` set (tasks d) then n else Suc n)
      else sync_tasks_from_json_loop clock (Suc k) ts d n)"
  by (simp add: Let_def task_identifier_def exists_iff)

lemma ids_update_task:
  "map t_task_id (tasks (update_task tid st ro de now d)) = map t_task_id (tasks d)"
  by (simp add: tasks_update_task fold_assign_fields o_def cong: if_cong)

lemma set_ids_update_task:
  "t_task_id ` set (tasks (update_task tid st ro de now d)) = t_task_id ` set (tasks d)"
  using ids_update_task [of tid st ro de now d] by (metis list.set_map)

lemma loop_ids:
  "t_task_id ` set (tasks (fst (sync_tasks_from_json_loop clock k ts d n)))
     = t_task_id ` set (tasks d) \<union> set (input_ids ts)"
proof (induction ts arbitrary: d n k)
  case Nil
  then show ?case by (simp add: input_ids_def)
next
  case (Cons t ts)
  obtain row where row: "tasks (create_task (py_str (task_identifier t))
       (dict_get t ''description'' (dict_get t ''subject'' (Some [])))
       (dict_get t ''owner'' None) None (clock (2 * k)) d) = tasks d @ [row]"
     "t_task_id row = py_str (task_identifier t)"
    using tasks_create_task by blast
  show ?case
    by (auto simp: loop_Cons Cons.IH Let_def input_ids_def set_ids_update_task row
             simp del: sync_tasks_from_json_loop.simps)
qed


lemma loop_distinct:
  "distinct (map t_task_id (tasks d)) \<Longrightarrow>
   distinct (map t_task_id (tasks (fst (sync_tasks_from_json_loop clock k ts d n))))"
proof (induction ts arbitrary: d n k)
  case Nil
  then show ?case by simp
next
  case (Cons t ts)
  obtain row where row: "tasks (create_task (py_str (task_identifier t))
       (dict_get t ''description'' (dict_get t ''subject'' (Some [])))
       (dict_get t ''owner'' None) None (clock (2 * k)) d) = tasks d @ [row]"
     "t_task_id row = py_str (task_identifier t)"
    using tasks_create_task by blast
  from Cons.prems show ?case
    by (auto simp: loop_Cons Let_def ids_update_task row intro!: Cons.IH
             simp del: sync_tasks_from_json_loop.simps)
qed

lemma loop_present:
  assumes "set (input_ids ts) \<subseteq> t_task_id ` set (tasks d)"
  shows "map t_id (tasks (fst (sync_tasks_from_json_loop clock k ts d n))) = map t_id (tasks d)
       \<and> map t_task_id (tasks (fst (sync_tasks_from_json_loop clock k ts d n)))
           = map t_task_id (tasks d)
       \<and> tasks_seq (fst (sync_tasks_from_json_loop clock k ts d n)) = tasks_seq d
       \<and> snd (sync_tasks_from_json_loop clock k ts d n) = n"
  using assms
proof (induction ts arbitrary: d n k)
  case Nil
  then show ?case by simp
next
  case (Cons t ts)
  show ?case
  proof (cases "truthy (task_identifier t)")
    case False
    with Cons.prems have "set (input_ids ts) \<subseteq> t_task_id ` set (tasks d)"
      by (simp add: input_ids_def)
    from Cons.IH [OF this] False show ?thesis
      by (simp add: loop_Cons del: sync_tasks_from_json_loop.simps)
  next
    case True
    with Cons.prems have here: "py_str (task_identifier t) \<in> t_task_id ` set (tasks d)"
      and rest: "set (input_ids ts) \<subseteq> t_task_id ` set (tasks d)"
      by (simp_all add: input_ids_def)
    show ?thesis
    proof (cases "dict_get t ''status'' (Some ''pending'') \<noteq> Some ''pending''")
      case False
      with True here Cons.IH [OF rest] show ?thesis
        by (simp add: loop_Cons Let_def del: sync_tasks_from_json_loop.simps)
    next
      case upd: True
      let ?d2 = "update_task (py_str (task_identifier t)) (dict_get t ''status'' (Some ''pending''))
                   None None (clock (2 * k + 1)) d"
      from rest have "set (input_ids ts) \<subseteq> t_task_id ` set (tasks ?d2)"
        by (simp add: set_ids_update_task)
      from Cons.IH [OF this] True here upd show ?thesis
        by (simp add: loop_Cons Let_def ids_update_task t_id_update_task
              update_task_other_tables del: sync_tasks_from_json_loop.simps)
    qed
  qed
qed

lemma loop_count:
  "snd (sync_tasks_from_json_loop clock k ts d n) + length (tasks d)
     = n + length (tasks (fst (sync_tasks_from_json_loop clock k ts d n)))"
proof (induction ts arbitrary: d n k)
  case Nil
  then show ?case by simp
next
  case (Cons t ts)
  obtain row where row: "tasks (create_task (py_str (task_identifier t))
       (dict_get t ''description'' (dict_get t ''subject'' (Some [])))
       (dict_get t ''owner'' None) None (clock (2 * k)) d) = tasks d @ [row]"
    using tasks_create_task by blast
  have len: "length (tasks (update_task i st None None now e)) = length (tasks e)" for i st now e
    by (simp add: tasks_update_task)
  note IH = Cons.IH [of "Suc k"]
  show ?case
  proof (cases "truthy (task_identifier t)")
    case False
    then show ?thesis using IH [of d n]
      by (simp add: loop_Cons del: sync_tasks_from_json_loop.simps)
  next
    case True
    let ?i = "py_str (task_identifier t)"
    let ?st = "dict_get t ''status'' (Some ''pending'')"
    let ?d1 = "if ?i \<in> t_task_id ` set (tasks d) then d
               else create_task ?i (dict_get t ''description'' (dict_get t ''subject'' (Some [])))
                      (dict_get t ''owner'' None) None (clock (2 * k)) d"
    let ?d2 = "if ?st \<noteq> Some ''pending''
               then update_task ?i ?st None None (clock (2 * k + 1)) ?d1 else ?d1"
    let ?n1 = "if ?i \<in> t_task_id ` set (tasks d) then n else Suc n"
    have step: "sync_tasks_from_json_loop clock k (t # ts) d n
                  = sync_tasks_from_json_loop clock (Suc k) ts ?d2 ?n1"
      using True by (simp add: loop_Cons Let_def del: sync_tasks_from_json_loop.simps)
    have "length (tasks ?d2) = length (tasks ?d1)" by (simp add: len)
    moreover have "?n1 + length (tasks d) = n + length (tasks ?d1)" by (simp add: row)
    ultimately show ?thesis using IH [of ?d2 ?n1] unfolding step by linarith
  qed
qed

lemma expected_status_idem:
  "expected_status ts i (expected_status ts i c) = expected_status ts i c"
proof (induction ts arbitrary: c)
  case Nil
  then show ?case by simp
next
  case (Cons t ts)
  show ?case
  proof (cases "dict_get t ''status'' (Some ''pending'')")
    case None
    then show ?thesis by (simp add: Cons.IH)
  next
    case (Some s)
    then show ?thesis by (simp add: Cons.IH)
  qed
qed

lemma loop_status:
  assumes "list_all (\<lambda>r. t_task_id r = i \<longrightarrow> t_status r = Some c) (tasks d)"
    and "i \<in> t_task_id ` set (tasks d) \<or> c = ''pending''"
  shows "list_all (\<lambda>r. t_task_id r = i \<longrightarrow> t_status r = Some (expected_status ts i c))
           (tasks (fst (sync_tasks_from_json_loop clock k ts d n)))"
  using assms
proof (induction ts arbitrary: d n k c)
  case Nil
  then show ?case by simp
next
  case (Cons t ts)
  show ?case
  proof (cases "truthy (task_identifier t)")
    case False
    then have "expected_status (t # ts) i c = expected_status ts i c"
      by (simp split: option.split)
    with False Cons.IH [OF Cons.prems] show ?thesis
      by (simp add: loop_Cons del: sync_tasks_from_json_loop.simps expected_status.simps)
  next
    case True
    let ?i = "py_str (task_identifier t)"
    let ?st = "dict_get t ''status'' (Some ''pending'')"
    let ?d1 = "if ?i \<in> t_task_id ` set (tasks d) then d
               else create_task ?i (dict_get t ''description'' (dict_get t ''subject'' (Some [])))
                      (dict_get t ''owner'' None) None (clock (2 * k)) d"
    let ?d2 = "if ?st \<noteq> Some ''pending''
               then update_task ?i ?st None None (clock (2 * k + 1)) ?d1 else ?d1"
    let ?n1 = "if ?i \<in> t_task_id ` set (tasks d) then n else Suc n"
    let ?c1 = "case ?st of None \<Rightarrow> c
               | Some s \<Rightarrow> if ?i = i \<and> s \<noteq> [] \<and> s \<noteq> ''pending'' then s else c"
    have step: "sync_tasks_from_json_loop clock k (t # ts) d n
                  = sync_tasks_from_json_loop clock (Suc k) ts ?d2 ?n1"
      using True by (simp add: loop_Cons Let_def del: sync_tasks_from_json_loop.simps)
    have exp: "expected_status (t # ts) i c = expected_status ts i ?c1"
      using True by (simp split: option.split)
    obtain row where row: "tasks (create_task ?i
         (dict_get t ''description'' (dict_get t ''subject'' (Some [])))
         (dict_get t ''owner'' None) None (clock (2 * k)) d) = tasks d @ [row]"
       "t_task_id row = ?i" "t_status row = Some ''pending''"
      using tasks_create_task by blast
    have d1: "list_all (\<lambda>r. t_task_id r = i \<longrightarrow> t_status r = Some c) (tasks ?d1)"
      and d1_in: "i \<in> t_task_id ` set (tasks ?d1) \<or> c = ''pending''"
      and d1_has: "?i \<in> t_task_id ` set (tasks ?d1)"
      using Cons.prems by (auto simp: row list_all_iff)
    have d2: "list_all (\<lambda>r. t_task_id r = i \<longrightarrow> t_status r = Some ?c1) (tasks ?d2)"
      using d1
      by (cases ?st) (auto simp: tasks_update_task fold_assign_fields list_all_iff)
    have d2_in: "i \<in> t_task_id ` set (tasks ?d2) \<or> ?c1 = ''pending''"
      using d1_in d1_has
      by (cases ?st) (auto simp: set_ids_update_task simp del: image_iff)
    show ?thesis
      unfolding step exp by (rule Cons.IH [OF d2 d2_in])
  qed
qed

lemma expected_status_absent:
  "i \<notin> set (input_ids ts) \<Longrightarrow> expected_status ts i c = c"
  by (induction ts arbitrary: c) (auto simp: input_ids_def split: option.split if_splits)

lemma expected_status_distinct:
  assumes "distinct (input_ids ts)" "t \<in> set ts" "truthy (task_identifier t)"
    and "dict_get t ''status'' (Some ''pending'') = Some s" "s \<noteq> []"
  shows "expected_status ts (py_str (task_identifier t)) ''pending'' = s"
proof -
  have "expected_status ts (py_str (task_identifier t)) c = (if s = ''pending'' then c else s)"
    for c
    using assms(1,2)
  proof (induction ts arbitrary: c)
    case Nil
    then show ?case by simp
  next
    case (Cons u us)
    show ?case
    proof (cases "u = t")
      case True
      with Cons.prems(1) assms(3) have "py_str (task_identifier t) \<notin> set (input_ids us)"
        by (simp add: input_ids_def)
      then show ?thesis using True assms(3,4,5)
        by (simp add: expected_status_absent)
    next
      case False
      with Cons.prems have t_in: "t \<in> set us" and d: "distinct (input_ids us)"
        by (auto simp: input_ids_def split: if_splits)
      from t_in assms(3) have "py_str (task_identifier t) \<in> set (input_ids us)"
        by (auto simp: input_ids_def)
      with Cons.prems(1) have
        "\<not> (truthy (task_identifier u) \<and> py_str (task_identifier u) = py_str (task_identifier t))"
        by (auto simp: input_ids_def split: if_splits)
      then show ?thesis using Cons.IH [OF d t_in]
        by (auto split: option.split)
    qed
  qed
  then show ?thesis by simp
qed

lemmas eval_defs = sync_tasks_from_json_def sync_from_json_def init_database_def noon_clock_def
  later_clock_def dict_get_def py_or_def create_task_def update_task_def collect_updates_def
  execute_update_def noon_def later_def Let_def

subsection \<open>Running the coordinator's reconciler twice\<close>

text \<open>
  C1, as the code has it. Run \<^verbatim>\<open>sync_tasks_from_json\<close>, with task synchronisation
  set up, twice on the same list against a store without tasks. The first run
  creates one row for each distinct non-empty identifier string of the list and
  reports that number; the second run creates nothing, its count of new tasks is
  zero and it prints no count. After either run the status of each task is the
  status of the last record for its identifier whose status is a non-empty string
  other than \<^verbatim>\<open>'pending'\<close>, and \<^verbatim>\<open>'pending'\<close> when there is no such record.
\<close>

theorem sync_tasks_from_json_twice:
  fixes d0 :: db and ts :: "task_record list" and clock1 clock2 :: "nat \<Rightarrow> datetime"
  defines "run1 \<equiv> sync_tasks_from_json True clock1 (Parsed (Json_array ts)) d0"
  defines "run2 \<equiv> sync_tasks_from_json True clock2 (Parsed (Json_array ts)) (fst run1)"
  assumes empty: "tasks d0 = []"
  shows "distinct (map t_task_id (tasks (fst run1)))
       \<and> set (map t_task_id (tasks (fst run1))) = set (input_ids ts)
       \<and> snd run1 = (if tasks (fst run1) = [] then [] else [Synced (length (tasks (fst run1)))])
       \<and> map t_id (tasks (fst run2)) = map t_id (tasks (fst run1))
       \<and> map t_task_id (tasks (fst run2)) = map t_task_id (tasks (fst run1))
       \<and> tasks_seq (fst run2) = tasks_seq (fst run1)
       \<and> snd (sync_tasks_from_json_loop clock2 0 ts (fst run1) 0) = 0
       \<and> snd run2 = []
       \<and> list_all (\<lambda>r. t_status r = Some (expected_status ts (t_task_id r) ''pending''))
            (tasks (fst run1))
       \<and> list_all (\<lambda>r. t_status r = Some (expected_status ts (t_task_id r) ''pending''))
            (tasks (fst run2))"
proof -
  let ?l1 = "sync_tasks_from_json_loop clock1 0 ts d0 0"
  let ?d1 = "fst ?l1"
  let ?l2 = "sync_tasks_from_json_loop clock2 0 ts ?d1 0"
  let ?d2 = "fst ?l2"
  have r1: "run1 = (?d1, if snd ?l1 > 0 then [Synced (snd ?l1)] else [])"
    by (simp add: run1_def sync_tasks_from_json_def Let_def split_beta)
  have r2: "run2 = (?d2, if snd ?l2 > 0 then [Synced (snd ?l2)] else [])"
    by (simp add: run2_def r1 sync_tasks_from_json_def Let_def split_beta)
  have ids1: "t_task_id ` set (tasks ?d1) = set (input_ids ts)"
    using loop_ids [of clock1 0 ts d0 0] by (simp add: empty)
  have dist1: "distinct (map t_task_id (tasks ?d1))"
    by (rule loop_distinct) (simp add: empty)
  have count1: "snd ?l1 = length (tasks ?d1)"
    using loop_count [of clock1 0 ts d0 0] by (simp add: empty)
  have present: "set (input_ids ts) \<subseteq> t_task_id ` set (tasks ?d1)"
    by (simp add: ids1)
  note second = loop_present [OF present, of clock2 0 0]
  have st1: "t_status r = Some (expected_status ts (t_task_id r) ''pending'')"
    if "r \<in> set (tasks ?d1)" for r
  proof -
    have "list_all (\<lambda>r'. t_task_id r' = t_task_id r \<longrightarrow>
              t_status r' = Some (expected_status ts (t_task_id r) ''pending'')) (tasks ?d1)"
      by (rule loop_status) (simp_all add: empty)
    with that show ?thesis by (simp add: list_all_iff)
  qed
  have st2: "t_status r = Some (expected_status ts (t_task_id r) ''pending'')"
    if "r \<in> set (tasks ?d2)" for r
  proof -
    let ?c = "expected_status ts (t_task_id r) ''pending''"
    from that have "t_task_id r \<in> set (map t_task_id (tasks ?d2))" by simp
    then have in1: "t_task_id r \<in> t_task_id ` set (tasks ?d1)"
      using second by simp
    have "list_all (\<lambda>r'. t_task_id r' = t_task_id r \<longrightarrow> t_status r' = Some ?c) (tasks ?d1)"
      using st1 by (simp add: list_all_iff)
    then have "list_all (\<lambda>r'. t_task_id r' = t_task_id r \<longrightarrow>
                  t_status r' = Some (expected_status ts (t_task_id r) ?c)) (tasks ?d2)"
      using in1
      by (intro loop_status [where i = "t_task_id r" and c = ?c and d = ?d1 and ts = ts
                               and clock = clock2 and k = 0 and n = 0]) simp_all
    with that show ?thesis by (simp add: list_all_iff expected_status_idem)
  qed
  show ?thesis
    unfolding r1 r2 using ids1 dist1 count1 second st1 st2
    by (simp add: list_all_iff)
qed

text \<open>
  The example list on a fresh store: \<^verbatim>\<open>t1\<close> and \<^verbatim>\<open>t2\<close> are created once, the
  record without identifier is skipped, and the second run prints no count.
\<close>

theorem sync_tasks_from_json_twice_witness:
  "tasks (init_database None) = []
   \<and> map t_task_id (tasks (fst (sync_tasks_from_json True noon_clock
          (Parsed (Json_array example_tasks)) (init_database None)))) = [''t1'', ''t2'']
   \<and> map t_status (tasks (fst (sync_tasks_from_json True noon_clock
          (Parsed (Json_array example_tasks)) (init_database None))))
       = [Some ''completed'', Some ''pending'']
   \<and> snd (sync_tasks_from_json True noon_clock (Parsed (Json_array example_tasks))
          (init_database None)) = [Synced 2]
   \<and> map t_task_id (tasks (fst (sync_tasks_from_json True later_clock
          (Parsed (Json_array example_tasks))
          (fst (sync_tasks_from_json True noon_clock (Parsed (Json_array example_tasks))
                 (init_database None)))))) = [''t1'', ''t2'']
   \<and> snd (sync_tasks_from_json True later_clock (Parsed (Json_array example_tasks))
          (fst (sync_tasks_from_json True noon_clock (Parsed (Json_array example_tasks))
                 (init_database None)))) = []"
proof -
  have empty: "tasks (init_database None) = []" by (simp add: init_database_def)
  have first: "map t_task_id (tasks (fst (sync_tasks_from_json True noon_clock
          (Parsed (Json_array example_tasks)) (init_database None)))) = [''t1'', ''t2'']
   \<and> map t_status (tasks (fst (sync_tasks_from_json True noon_clock
          (Parsed (Json_array example_tasks)) (init_database None))))
       = [Some ''completed'', Some ''pending'']
   \<and> snd (sync_tasks_from_json True noon_clock (Parsed (Json_array example_tasks))
          (init_database None)) = [Synced 2]"
    by (simp add: eval_defs example_tasks_def)
  show ?thesis
    using sync_tasks_from_json_twice
            [where ?d0.0 = "init_database None" and ts = example_tasks
               and ?clock1.0 = noon_clock and ?clock2.0 = later_clock, OF empty]
          first empty
    by simp
qed

text \<open>
  C1 as stated fails on a record whose status is the empty string: the task is
  created and keeps the status \<^verbatim>\<open>'pending'\<close>, which is not the status of the input.
\<close>

theorem sync_tasks_from_json_empty_status:
  "dict_get [(''id'', Some ''t1''), (''status'', Some [])] ''status'' (Some ''pending'') = Some []
   \<and> map t_status (tasks (fst (sync_tasks_from_json True noon_clock
         (Parsed (Json_array [[(''id'', Some ''t1''), (''status'', Some [])]]))
         (init_database None)))) = [Some ''pending'']"
  by (simp add: eval_defs)

text \<open>
  The standalone script has no existence check: a second run on the same list
  inserts the task again and reports one synced task again.
\<close>

lemma sync_from_json_twice_duplicates:
  "map t_task_id (tasks (fst (sync_from_json later_clock
       (Parsed (Json_array [[(''id'', Some ''1''), (''description'', Some ''Build X''),
                             (''status'', Some ''pending'')]]))
       (Some (fst (sync_from_json noon_clock
          (Parsed (Json_array [[(''id'', Some ''1''), (''description'', Some ''Build X''),
                                (''status'', Some ''pending'')]])) None))))))
     = [''1'', ''1'']
   \<and> snd (sync_from_json later_clock
       (Parsed (Json_array [[(''id'', Some ''1''), (''description'', Some ''Build X''),
                             (''status'', Some ''pending'')]]))
       (Some (fst (sync_from_json noon_clock
          (Parsed (Json_array [[(''id'', Some ''1''), (''description'', Some ''Build X''),
                                (''status'', Some ''pending'')]])) None)))) = [Synced 1]"
  by (simp add: eval_defs)

subsection \<open>Rejected payloads and skipped records\<close>

lemma loops_skip_all:
  "list_all (\<lambda>t. \<not> truthy (task_identifier t)) ts \<Longrightarrow>
     sync_tasks_from_json_loop clock k ts d n = (d, n)
     \<and> sync_from_json_loop clock k ts d n = (d, n)"
  by (induction ts arbitrary: k) (simp_all add: task_identifier_def Let_def)

text \<open>
  C8, as the code has it. When the payload is not a JSON array, or does not parse,
  each reconciler prints its error line, creates nothing and returns: the
  coordinator's leaves the store as it was, the script's leaves an existing store as
  it was and a missing one freshly initialised. And a record with no identifier
  under \<^verbatim>\<open>id\<close> and under \<^verbatim>\<open>task_id\<close> (absent, null or empty) is skipped by both
  loops: the store and the count go on to the next record as they were.
\<close>

theorem reconcilers_reject_and_skip:
  "((\<forall>ts. v \<noteq> Json_array ts) \<longrightarrow>
       sync_tasks_from_json True clock (Parsed v) d = (d, [Expected_array])
     \<and> sync_from_json clock (Parsed v) (Some d) = (d, [Expected_array])
     \<and> sync_from_json clock (Parsed v) None = (init_database None, [Expected_array]))
   \<and> sync_tasks_from_json True clock Decode_error d = (d, [Json_parsing_error])
   \<and> sync_from_json clock Decode_error (Some d) = (d, [Json_parsing_error])
   \<and> sync_from_json clock Decode_error None = (init_database None, [Json_parsing_error])
   \<and> (dict_get t ''id'' None \<in> {None, Some []} \<and> dict_get t ''task_id'' None \<in> {None, Some []}
       \<longrightarrow> sync_tasks_from_json_loop clock k (t # rest) d n
             = sync_tasks_from_json_loop clock (Suc k) rest d n
         \<and> sync_from_json_loop clock k (t # rest) d n
             = sync_from_json_loop clock (Suc k) rest d n
         \<and> sync_tasks_from_json_loop clock k [t] d n = (d, n)
         \<and> sync_from_json_loop clock k [t] d n = (d, n))"
proof -
  have skip: "\<not> truthy (py_or (dict_get t ''id'' None) (dict_get t ''task_id'' None))"
    if "dict_get t ''id'' None \<in> {None, Some []}" "dict_get t ''task_id'' None \<in> {None, Some []}"
    using that by (auto simp: py_or_def)
  have reject: "sync_tasks_from_json True clock (Parsed v) d = (d, [Expected_array])
        \<and> sync_from_json clock (Parsed v) found = (init_database found, [Expected_array])"
    if "\<forall>ts. v \<noteq> Json_array ts" for found
    using that by (cases v) (simp_all add: sync_tasks_from_json_def sync_from_json_def)
  have first: "(\<forall>ts. v \<noteq> Json_array ts) \<longrightarrow>
       sync_tasks_from_json True clock (Parsed v) d = (d, [Expected_array])
     \<and> sync_from_json clock (Parsed v) (Some d) = (d, [Expected_array])
     \<and> sync_from_json clock (Parsed v) None = (init_database None, [Expected_array])"
    using reject [of "Some d"] reject [of None] by (simp add: init_database_def)
  have second: "sync_tasks_from_json True clock Decode_error d = (d, [Json_parsing_error])
     \<and> sync_from_json clock Decode_error (Some d) = (d, [Json_parsing_error])
     \<and> sync_from_json clock Decode_error None = (init_database None, [Json_parsing_error])"
    by (simp add: sync_tasks_from_json_def sync_from_json_def init_database_def)
  have third: "sync_tasks_from_json_loop clock k (t # rest) d n
             = sync_tasks_from_json_loop clock (Suc k) rest d n
         \<and> sync_from_json_loop clock k (t # rest) d n
             = sync_from_json_loop clock (Suc k) rest d n
         \<and> sync_tasks_from_json_loop clock k [t] d n = (d, n)
         \<and> sync_from_json_loop clock k [t] d n = (d, n)"
    if "dict_get t ''id'' None \<in> {None, Some []}" "dict_get t ''task_id'' None \<in> {None, Some []}"
    using skip [OF that] by (simp add: Let_def)
  from first second third show ?thesis by blast
qed

text \<open>
  A JSON object at top level is rejected, and a record with a subject and a null
  \<^verbatim>\<open>id\<close> is skipped.
\<close>

theorem reconcilers_reject_and_skip_witness:
  "(\<forall>ts. Json_object [(''id'', Some ''t1'')] \<noteq> Json_array ts)
   \<and> sync_tasks_from_json True noon_clock (Parsed (Json_object [(''id'', Some ''t1'')])) two_sessions
       = (two_sessions, [Expected_array])
   \<and> sync_from_json noon_clock (Parsed (Json_object [(''id'', Some ''t1'')])) (Some two_sessions)
       = (two_sessions, [Expected_array])
   \<and> dict_get [(''subject'', Some ''no identifier''), (''id'', None)] ''id'' None \<in> {None, Some []}
   \<and> dict_get [(''subject'', Some ''no identifier''), (''id'', None)] ''task_id'' None
       \<in> {None, Some []}
   \<and> sync_tasks_from_json_loop noon_clock 0 [[(''subject'', Some ''no identifier''), (''id'', None)]]
         two_sessions 0 = (two_sessions, 0)
   \<and> sync_from_json_loop noon_clock 0 [[(''subject'', Some ''no identifier''), (''id'', None)]]
         two_sessions 0 = (two_sessions, 0)"
proof -
  have a: "\<forall>ts. Json_object [(''id'', Some ''t1'')] \<noteq> Json_array ts" by simp
  have b: "dict_get [(''subject'', Some ''no identifier''), (''id'', None)] ''id'' None
             \<in> {None, Some []}"
    and c: "dict_get [(''subject'', Some ''no identifier''), (''id'', None)] ''task_id'' None
             \<in> {None, Some []}"
    by (simp_all add: dict_get_def)
  show ?thesis
    using reconcilers_reject_and_skip
            [where v = "Json_object [(''id'', Some ''t1'')]" and clock = noon_clock
               and d = two_sessions
               and t = "[(''subject'', Some ''no identifier''), (''id'', None)]"
               and k = 0 and n = 0 and rest = "[]"]
          a b c
    by simp
qed

text \<open>
  C8 as stated fails for the key: a record whose only key is \<^verbatim>\<open>task_id\<close> has no
  identifier under \<^verbatim>\<open>id\<close> or \<^verbatim>\<open>taskId\<close>, and both reconcilers create its task.
\<close>

theorem sync_tasks_from_json_task_id_key:
  "map_of [(''task_id'', Some ''t9'')] ''id'' = None
   \<and> map_of [(''task_id'', Some ''t9'')] ''taskId'' = None
   \<and> map t_task_id (tasks (fst (sync_tasks_from_json True noon_clock
         (Parsed (Json_array [[(''task_id'', Some ''t9'')]])) (init_database None)))) = [''t9'']
   \<and> map t_task_id (tasks (fst (sync_from_json noon_clock
         (Parsed (Json_array [[(''task_id'', Some ''t9'')]])) None))) = [''t9'']"
  by (simp add: eval_defs)

end
